theory Spec2Isabelle
  imports Complex_Main "HOL-Library.Log_Nat"
begin

section \<open>Python numbers\<close>

text \<open>
  The scoring module computes with Python \<open>float\<close>s, that is IEEE 754 binary64 with
  round to nearest, ties to even. A finite float is modelled by the rational number it
  denotes; \<open>binary64 x\<close> is the float nearest to the rational \<open>x\<close> (53 bits of
  precision, least exponent \<open>-1074\<close>). The exponent is not bounded above: the places where
  the source can leave the finite range are modelled where they occur (\<open>int_truediv\<close>).
\<close>

definition round_half_even :: "rat \<Rightarrow> int" where
  "round_half_even x =
     (let f = \<lfloor>x\<rfloor>; d = x - of_int f in
      if d < 1/2 then f else if 1/2 < d then f + 1 else if even f then f else f + 1)"

definition ilog2 :: "rat \<Rightarrow> int" where
  "ilog2 x =
     (let (p, q) = quotient_of x;
          k = int (floorlog 2 (nat p)) - int (floorlog 2 (nat q))
      in if 2 powi k \<le> x then k else k - 1)"

definition binary64 :: "rat \<Rightarrow> rat" where
  "binary64 x =
     (if x = 0 then 0
      else let e = max (ilog2 \<bar>x\<bar> - 52) (- 1074)
           in of_int (round_half_even (x / 2 powi e)) * 2 powi e)"

text \<open>A decimal literal such as \<open>0.30\<close> denotes the float nearest to it.\<close>

definition float_lit :: "rat \<Rightarrow> rat" where
  "float_lit d = binary64 d"

definition fadd :: "rat \<Rightarrow> rat \<Rightarrow> rat" where
  "fadd x y = binary64 (x + y)"

definition fmul :: "rat \<Rightarrow> rat \<Rightarrow> rat" where
  "fmul x y = binary64 (x * y)"

datatype py_error = OverflowError | ZeroDivisionError

text \<open>
  \<open>a / b\<close> on two Python \<open>int\<close>s: the correctly rounded quotient, \<open>ZeroDivisionError\<close>
  for a zero divisor and \<open>OverflowError\<close> when the rounded quotient is beyond the largest
  finite float.
\<close>

definition int_truediv :: "int \<Rightarrow> int \<Rightarrow> py_error + rat" where
  "int_truediv a b =
     (if b = 0 then Inl ZeroDivisionError
      else let r = binary64 (of_int a / of_int b)
           in if 2 ^ 1024 \<le> \<bar>r\<bar> then Inl OverflowError else Inr r)"

text \<open>\<open>round(x, nd)\<close> on a float: round half even at \<open>nd\<close> decimals, then the nearest float.\<close>

definition py_round :: "rat \<Rightarrow> nat \<Rightarrow> rat" where
  "py_round x nd = binary64 (of_int (round_half_even (x * 10 ^ nd)) / 10 ^ nd)"

subsection \<open>Formatting\<close>

definition digit_char :: "nat \<Rightarrow> char" where
  "digit_char d = ''0123456789'' ! d"

fun show_nat :: "nat \<Rightarrow> string" where
  "show_nat n = (if n < 10 then [digit_char n] else show_nat (n div 10) @ [digit_char (n mod 10)])"

definition show_int :: "int \<Rightarrow> string" where
  "show_int i = (if i < 0 then CHR ''-'' # show_nat (nat (- i)) else show_nat (nat i))"

text \<open>The format \<open>{x:.1f}\<close> of a float.\<close>

definition format_1f :: "rat \<Rightarrow> string" where
  "format_1f x =
     (let n = nat (round_half_even (\<bar>x\<bar> * 10))
      in (if x < 0 then ''-'' else '''') @ show_nat (n div 10) @ ''.'' @ show_nat (n mod 10))"

fun join_with :: "string \<Rightarrow> string list \<Rightarrow> string" where
  "join_with sep [] = ''''"
| "join_with sep [x] = x"
| "join_with sep (x # y # ys) = x @ sep @ join_with sep (y # ys)"

text \<open>The test \<open>sub in s\<close> on two strings.\<close>

fun starts_with :: "string \<Rightarrow> string \<Rightarrow> bool" where
  "starts_with [] s = True"
| "starts_with (c # cs) [] = False"
| "starts_with (c # cs) (d # ds) = (c = d \<and> starts_with cs ds)"

fun contains :: "string \<Rightarrow> string \<Rightarrow> bool" where
  "contains sub [] = (sub = [])"
| "contains sub (c # cs) = (starts_with sub (c # cs) \<or> contains sub cs)"

section \<open>config.py\<close>

definition MODEL_VERSION :: string where
  "MODEL_VERSION = ''v1.2.3''"

text \<open>The four entries of the dictionary \<open>LEAD_SCORE_WEIGHTS\<close>.\<close>

definition LEAD_SCORE_WEIGHTS_company_size :: rat where
  "LEAD_SCORE_WEIGHTS_company_size = float_lit (20 / 100)"

definition LEAD_SCORE_WEIGHTS_engagement_signals :: rat where
  "LEAD_SCORE_WEIGHTS_engagement_signals = float_lit (40 / 100)"

definition LEAD_SCORE_WEIGHTS_industry_fit :: rat where
  "LEAD_SCORE_WEIGHTS_industry_fit = float_lit (20 / 100)"

definition LEAD_SCORE_WEIGHTS_intent_signals :: rat where
  "LEAD_SCORE_WEIGHTS_intent_signals = float_lit (20 / 100)"

definition LEAD_TIER_THRESHOLDS_hot :: rat where
  "LEAD_TIER_THRESHOLDS_hot = 70"

definition LEAD_TIER_THRESHOLDS_warm :: rat where
  "LEAD_TIER_THRESHOLDS_warm = 40"

definition CHURN_RISK_THRESHOLDS_critical :: rat where
  "CHURN_RISK_THRESHOLDS_critical = 70"

definition CHURN_RISK_THRESHOLDS_high :: rat where
  "CHURN_RISK_THRESHOLDS_high = 50"

definition CHURN_RISK_THRESHOLDS_medium :: rat where
  "CHURN_RISK_THRESHOLDS_medium = 30"

definition CONVERSION_THRESHOLDS_high :: rat where
  "CONVERSION_THRESHOLDS_high = float_lit (70 / 100)"

definition CONVERSION_THRESHOLDS_medium :: rat where
  "CONVERSION_THRESHOLDS_medium = float_lit (40 / 100)"

definition INDUSTRY_FIT_SCORES :: "(string \<times> int) list" where
  "INDUSTRY_FIT_SCORES =
     [(''technology'', 90), (''saas'', 85), (''data_analytics'', 95), (''finance'', 80),
      (''healthcare'', 75), (''insurance'', 75), (''manufacturing'', 70), (''energy'', 70),
      (''professional_services'', 65), (''education'', 60), (''retail'', 55),
      (''logistics'', 50), (''real_estate'', 45), (''agriculture'', 40),
      (''hospitality'', 35), (''nonprofit'', 30), (''default'', 50)]"

text \<open>\<open>INDUSTRY_FIT_SCORES.get(industry, INDUSTRY_FIT_SCORES["default"])\<close>\<close>

definition industry_fit_score :: "string \<Rightarrow> int" where
  "industry_fit_score industry =
     (case map_of INDUSTRY_FIT_SCORES industry of
        Some v \<Rightarrow> v
      | None \<Rightarrow> (case map_of INDUSTRY_FIT_SCORES ''default'' of Some d \<Rightarrow> d | None \<Rightarrow> 0))"

definition get_company_size_score :: "int \<Rightarrow> int" where
  "get_company_size_score employee_count =
     (if employee_count \<ge> 1000 then 100
      else if employee_count \<ge> 500 then 90
      else if employee_count \<ge> 200 then 80
      else if employee_count \<ge> 100 then 70
      else if employee_count \<ge> 50 then 60
      else if employee_count \<ge> 20 then 50
      else 30)"

section \<open>scoring.py: lead scoring\<close>

text \<open>
  The signals dictionary, read with \<open>signals.get(key, default)\<close>: a field is \<open>None\<close> when
  the key is absent. Counts are Python \<open>int\<close>s, the e-mail score is a float.
\<close>

record signals =
  website_visits_30d :: "int option"
  email_engagement_score :: "rat option"
  demo_requested :: "bool option"
  free_trial_started :: "bool option"
  whitepaper_downloads :: "int option"
  linkedin_engagement :: "bool option"

text \<open>The empty dictionary \<open>{}\<close> as a signals bag.\<close>

definition empty_signals :: signals where
  "empty_signals =
     \<lparr>website_visits_30d = None, email_engagement_score = None, demo_requested = None,
      free_trial_started = None, whitepaper_downloads = None, linkedin_engagement = None\<rparr>"

datatype pyval = IntV int | FloatV rat | BoolV bool | StrV string

record attribution =
  feature_name :: string
  contribution :: rat
  signal_value :: pyval
  impact :: string

definition calculate_engagement_score :: "signals \<Rightarrow> py_error + (rat \<times> attribution list)" where
  "calculate_engagement_score s =
     (let website_visits = (case website_visits_30d s of None \<Rightarrow> 0 | Some v \<Rightarrow> v)
      in case int_truediv website_visits 50 of
           Inl e \<Rightarrow> Inl e
         | Inr visits_ratio \<Rightarrow>
      let website_score = min 100 (fmul visits_ratio 100);
          a1 = \<lparr>feature_name = ''website_visits_30d'', contribution = 25,
                signal_value = IntV website_visits,
                impact = (if website_visits > 20 then ''positive'' else ''neutral'')\<rparr>;
          email_score = (case email_engagement_score s of None \<Rightarrow> 0 | Some v \<Rightarrow> v);
          a2 = \<lparr>feature_name = ''email_engagement_score'', contribution = 30,
                signal_value = (case email_engagement_score s of None \<Rightarrow> IntV 0 | Some v \<Rightarrow> FloatV v),
                impact = (if email_score > 60 then ''positive'' else ''neutral'')\<rparr>;
          demo = (case demo_requested s of None \<Rightarrow> False | Some b \<Rightarrow> b);
          demo_score = (if demo then 100 else 0);
          a3 = \<lparr>feature_name = ''demo_requested'', contribution = 20,
                signal_value = BoolV demo,
                impact = (if demo then ''positive'' else ''negative'')\<rparr>;
          trial_started = (case free_trial_started s of None \<Rightarrow> False | Some b \<Rightarrow> b);
          trial_score = (if trial_started then 100 else 0);
          a4 = \<lparr>feature_name = ''free_trial_started'', contribution = 15,
                signal_value = BoolV trial_started,
                impact = (if trial_started then ''positive'' else ''neutral'')\<rparr>;
          downloads = (case whitepaper_downloads s of None \<Rightarrow> 0 | Some v \<Rightarrow> v)
      in case int_truediv downloads 5 of
           Inl e \<Rightarrow> Inl e
         | Inr downloads_ratio \<Rightarrow>
      let whitepaper_score = min 100 (fmul downloads_ratio 100);
          a5 = \<lparr>feature_name = ''whitepaper_downloads'', contribution = 10,
                signal_value = IntV downloads,
                impact = (if downloads > 2 then ''positive'' else ''neutral'')\<rparr>;
          total_score =
            fadd (fadd (fadd (fadd (fmul website_score (float_lit (25 / 100)))
                                   (fmul email_score (float_lit (30 / 100))))
                             (fmul demo_score (float_lit (20 / 100))))
                       (fmul trial_score (float_lit (15 / 100))))
                 (fmul whitepaper_score (float_lit (10 / 100)))
      in Inr (total_score, [a1, a2, a3, a4, a5]))"

definition calculate_intent_score :: "signals \<Rightarrow> rat \<times> attribution list" where
  "calculate_intent_score s =
     (let linkedin = (case linkedin_engagement s of None \<Rightarrow> False | Some b \<Rightarrow> b);
          linkedin_score = (if linkedin then 100 else 40)
      in (linkedin_score,
          [\<lparr>feature_name = ''linkedin_engagement'', contribution = 100,
            signal_value = BoolV linkedin,
            impact = (if linkedin then ''positive'' else ''neutral'')\<rparr>]))"

definition generate_lead_explanation ::
    "string \<Rightarrow> rat \<Rightarrow> string \<Rightarrow> signals \<Rightarrow> string \<Rightarrow> int \<Rightarrow> string" where
  "generate_lead_explanation company_name sc tier s industry employee_count =
     (let opening = company_name @ '' scored '' @ format_1f sc @ ''/100 ('' @ tier @ '' tier).'';
          positives =
            (if demo_requested s = Some True then [''demo requested''] else []) @
            (if free_trial_started s = Some True then [''free trial started''] else []) @
            (if (case email_engagement_score s of None \<Rightarrow> 0 | Some v \<Rightarrow> v) > 70
             then [''high email engagement''] else []) @
            (if employee_count \<ge> 500 then [''enterprise size''] else []);
          concerns =
            (if (case website_visits_30d s of None \<Rightarrow> 0 | Some v \<Rightarrow> v) < 10
             then [''low website engagement''] else []) @
            (if demo_requested s \<noteq> Some True then [''no demo requested''] else []) @
            (if employee_count < 50 then [''small company size''] else [])
      in opening @
         (if positives \<noteq> [] then '' Strong signals: '' @ join_with '', '' positives @ ''.'' else '''') @
         (if concerns \<noteq> [] \<and> tier \<noteq> ''hot''
          then '' Areas to improve: '' @ join_with '', '' concerns @ ''.'' else ''''))"

record prediction_result =
  score :: rat
  tier :: string
  feature_attributions :: "attribution list"
  explanation :: string
  lead_model_version :: string
  lead_timestamp :: string

text \<open>
  The weighted score before \<open>round(final_score, 2)\<close>; \<open>score_lead\<close> decides the tier on it.
\<close>

definition final_score_of :: "int \<Rightarrow> rat \<Rightarrow> int \<Rightarrow> rat \<Rightarrow> rat" where
  "final_score_of company_size_score engagement_score industry_score intent_score =
     fadd (fadd (fadd (fmul (of_int company_size_score) LEAD_SCORE_WEIGHTS_company_size)
                      (fmul engagement_score LEAD_SCORE_WEIGHTS_engagement_signals))
                (fmul (of_int industry_score) LEAD_SCORE_WEIGHTS_industry_fit))
          (fmul intent_score LEAD_SCORE_WEIGHTS_intent_signals)"

definition lead_tier :: "rat \<Rightarrow> string" where
  "lead_tier final_score =
     (if final_score \<ge> LEAD_TIER_THRESHOLDS_hot then ''hot''
      else if final_score \<ge> LEAD_TIER_THRESHOLDS_warm then ''warm''
      else ''cold'')"

text \<open>
  \<open>now\<close> is the clock reading \<open>datetime.utcnow().isoformat()\<close> of the call.
\<close>

definition score_lead ::
    "string \<Rightarrow> string \<Rightarrow> signals \<Rightarrow> string \<Rightarrow> int \<Rightarrow> py_error + prediction_result" where
  "score_lead now company_name s industry employee_count =
     (let company_size_score = get_company_size_score employee_count;
          size_attr = \<lparr>feature_name = ''company_size'',
                       contribution = fmul LEAD_SCORE_WEIGHTS_company_size 100,
                       signal_value = IntV employee_count,
                       impact = (if company_size_score > 70 then ''positive'' else ''neutral'')\<rparr>
      in case calculate_engagement_score s of
           Inl e \<Rightarrow> Inl e
         | Inr (engagement_score, engagement_attrs) \<Rightarrow>
      let scaled_engagement =
            map (\<lambda>a. a\<lparr>contribution := fmul (contribution a) LEAD_SCORE_WEIGHTS_engagement_signals\<rparr>)
                engagement_attrs;
          industry_score = industry_fit_score industry;
          industry_attr = \<lparr>feature_name = ''industry_fit'',
                           contribution = fmul LEAD_SCORE_WEIGHTS_industry_fit 100,
                           signal_value = StrV industry,
                           impact = (if industry_score > 70 then ''positive'' else ''neutral'')\<rparr>;
          (intent_score, intent_attrs) = calculate_intent_score s;
          scaled_intent =
            map (\<lambda>a. a\<lparr>contribution := fmul (contribution a) LEAD_SCORE_WEIGHTS_intent_signals\<rparr>)
                intent_attrs;
          all_attributions = [size_attr] @ scaled_engagement @ [industry_attr] @ scaled_intent;
          final_score = final_score_of company_size_score engagement_score industry_score intent_score;
          t = lead_tier final_score
      in Inr \<lparr>score = py_round final_score 2,
              tier = t,
              feature_attributions = all_attributions,
              explanation = generate_lead_explanation company_name final_score t s industry employee_count,
              lead_model_version = MODEL_VERSION,
              lead_timestamp = now @ ''Z''\<rparr>)"

section \<open>scoring.py: churn risk\<close>

record usage_bag =
  daily_active_users :: "int option"
  features_adopted :: "int option"
  api_calls_per_day :: "int option"
  support_tickets_30d :: "int option"
  nps_score :: "int option"
  login_frequency_7d :: "int option"

text \<open>The empty dictionary \<open>{}\<close> as a usage bag.\<close>

definition empty_usage :: usage_bag where
  "empty_usage =
     \<lparr>daily_active_users = None, features_adopted = None, api_calls_per_day = None,
      support_tickets_30d = None, nps_score = None, login_frequency_7d = None\<rparr>"

record account =
  acc_id :: string
  company :: string
  plan :: string
  created_date :: string
  usage_signals :: usage_bag

text \<open>The three tests of the loop body of \<open>generate_intervention_suggestions\<close> on one factor.\<close>

definition interventions_for :: "string \<Rightarrow> string list" where
  "interventions_for factor =
     (if contains ''NPS'' factor \<or> contains ''support ticket'' factor
      then [''Schedule executive business review to address concerns''] else []) @
     (if contains ''daily active'' factor \<or> contains ''login'' factor
      then [''Provide personalized onboarding/training session''] else []) @
     (if contains ''feature adoption'' factor
      then [''Demonstrate advanced features relevant to their use case''] else [])"

text \<open>
  The source returns \<open>list(set(interventions))\<close>, a list without duplicates in an order
  that Python does not fix; the model returns the set.
\<close>

definition generate_intervention_suggestions :: "string list \<Rightarrow> account \<Rightarrow> string set" where
  "generate_intervention_suggestions risk_factors account_data =
     (let interventions = fold (\<lambda>factor acc. acc @ interventions_for factor) risk_factors [];
          interventions' =
            (if plan account_data = ''starter''
             then interventions @ [''Explore upsell to Professional tier with more features'']
             else interventions)
      in set interventions')"

text \<open>The risk score and the risk factors after the five factor checks, in their order.\<close>

definition churn_factors :: "usage_bag \<Rightarrow> rat \<times> string list" where
  "churn_factors usage =
     (let risk_score = 0; risk_factors = [];
          dau = (case daily_active_users usage of None \<Rightarrow> 0 | Some v \<Rightarrow> v);
          (risk_score, risk_factors) =
            (if dau < 5 then (fadd risk_score 30, risk_factors @ [''Very low daily active users''])
             else if dau < 10 then (fadd risk_score 15, risk_factors @ [''Low daily active users''])
             else (risk_score, risk_factors));
          (risk_score, risk_factors) =
            (case nps_score usage of
               None \<Rightarrow> (risk_score, risk_factors)
             | Some nps \<Rightarrow>
                 if nps \<le> 4 then (fadd risk_score 25, risk_factors @ [''Low NPS score (detractor)''])
                 else if nps \<le> 6 then (fadd risk_score 10, risk_factors @ [''Below-average NPS''])
                 else (risk_score, risk_factors));
          support_tickets = (case support_tickets_30d usage of None \<Rightarrow> 0 | Some v \<Rightarrow> v);
          (risk_score, risk_factors) =
            (if support_tickets > 5
             then (fadd risk_score 20, risk_factors @ [''High support ticket volume''])
             else if support_tickets > 3
             then (fadd risk_score 10, risk_factors @ [''Elevated support tickets''])
             else (risk_score, risk_factors));
          login_freq = (case login_frequency_7d usage of None \<Rightarrow> 0 | Some v \<Rightarrow> v);
          (risk_score, risk_factors) =
            (if login_freq < 5
             then (fadd risk_score 15, risk_factors @ [''Declining login frequency''])
             else (risk_score, risk_factors));
          features = (case features_adopted usage of None \<Rightarrow> 0 | Some v \<Rightarrow> v);
          (risk_score, risk_factors) =
            (if features < 3
             then (fadd risk_score 10, risk_factors @ [''Low feature adoption''])
             else (risk_score, risk_factors))
      in (risk_score, risk_factors))"

definition churn_tier :: "rat \<Rightarrow> string" where
  "churn_tier risk_score =
     (if risk_score \<ge> CHURN_RISK_THRESHOLDS_critical then ''critical''
      else if risk_score \<ge> CHURN_RISK_THRESHOLDS_high then ''high''
      else if risk_score \<ge> CHURN_RISK_THRESHOLDS_medium then ''medium''
      else ''low'')"

record churn_result =
  churn_account_id :: string
  churn_company :: string
  risk_score :: rat
  risk_tier :: string
  declining_signals :: "string list"
  suggested_interventions :: "string set"
  churn_model_version :: string
  churn_timestamp :: string

definition detect_churn_risk :: "string \<Rightarrow> account \<Rightarrow> churn_result" where
  "detect_churn_risk now account_data =
     (let (raw_score, risk_factors) = churn_factors (usage_signals account_data)
      in \<lparr>churn_account_id = acc_id account_data,
          churn_company = company account_data,
          risk_score = py_round raw_score 2,
          risk_tier = churn_tier raw_score,
          declining_signals = risk_factors,
          suggested_interventions = generate_intervention_suggestions risk_factors account_data,
          churn_model_version = MODEL_VERSION,
          churn_timestamp = now @ ''Z''\<rparr>)"

section \<open>scoring.py: trial conversion\<close>

definition get_probability_tier :: "rat \<Rightarrow> string" where
  "get_probability_tier probability =
     (if probability \<ge> CONVERSION_THRESHOLDS_high then ''high''
      else if probability \<ge> CONVERSION_THRESHOLDS_medium then ''medium''
      else ''low'')"

text \<open>The probability after the four band checks, before \<open>round(probability, 3)\<close>.\<close>

definition conversion_raw_probability :: "usage_bag \<Rightarrow> rat" where
  "conversion_raw_probability usage =
     (let probability = 0;
          dau = (case daily_active_users usage of None \<Rightarrow> 0 | Some v \<Rightarrow> v);
          probability =
            (if dau \<ge> 15 then fadd probability (float_lit (30 / 100))
             else if dau \<ge> 10 then fadd probability (float_lit (20 / 100))
             else if dau \<ge> 5 then fadd probability (float_lit (10 / 100))
             else probability);
          features = (case features_adopted usage of None \<Rightarrow> 0 | Some v \<Rightarrow> v);
          probability =
            (if features \<ge> 5 then fadd probability (float_lit (25 / 100))
             else if features \<ge> 3 then fadd probability (float_lit (15 / 100))
             else if features \<ge> 2 then fadd probability (float_lit (5 / 100))
             else probability);
          api_calls = (case api_calls_per_day usage of None \<Rightarrow> 0 | Some v \<Rightarrow> v);
          probability =
            (if api_calls \<ge> 300 then fadd probability (float_lit (20 / 100))
             else if api_calls \<ge> 150 then fadd probability (float_lit (10 / 100))
             else if api_calls \<ge> 50 then fadd probability (float_lit (5 / 100))
             else probability);
          login_freq = (case login_frequency_7d usage of None \<Rightarrow> 0 | Some v \<Rightarrow> v);
          probability =
            (if login_freq \<ge> 14 then fadd probability (float_lit (25 / 100))
             else if login_freq \<ge> 10 then fadd probability (float_lit (15 / 100))
             else if login_freq \<ge> 5 then fadd probability (float_lit (5 / 100))
             else probability)
      in probability)"

record conversion_result =
  conv_account_id :: string
  conv_company :: string
  trial_day :: int
  conversion_probability :: rat
  probability_tier :: string
  key_engagement_signals :: "string list"
  recommended_actions :: "string list"
  conv_model_version :: string
  conv_timestamp :: string

definition calculate_conversion_probability :: "string \<Rightarrow> account \<Rightarrow> conversion_result" where
  "calculate_conversion_probability now account_data =
     (let usage = usage_signals account_data;
          probability = conversion_raw_probability usage;
          dau = (case daily_active_users usage of None \<Rightarrow> 0 | Some v \<Rightarrow> v);
          features = (case features_adopted usage of None \<Rightarrow> 0 | Some v \<Rightarrow> v);
          api_calls = (case api_calls_per_day usage of None \<Rightarrow> 0 | Some v \<Rightarrow> v);
          engagement_signals =
            (if dau \<ge> 10 then [''Strong daily usage ('' @ show_int dau @ '' DAU)''] else []) @
            (if features \<ge> 3
             then [''Good feature adoption ('' @ show_int features @ '' features)''] else []) @
            (if api_calls \<ge> 150
             then [''Active API integration ('' @ show_int api_calls @ '' calls/day)''] else []);
          recommendations =
            (if probability \<ge> CONVERSION_THRESHOLDS_high
             then [''Send upgrade prompt with success stories'',
                   ''Offer onboarding call to ensure success'']
             else if probability \<ge> CONVERSION_THRESHOLDS_medium
             then [''Provide feature tutorial to drive adoption'',
                   ''Share case study from similar customer'']
             else [''Increase engagement with personalized outreach'',
                   ''Identify and remove adoption blockers''])
      in \<lparr>conv_account_id = acc_id account_data,
          conv_company = company account_data,
          trial_day = 10,
          conversion_probability = py_round probability 3,
          probability_tier = get_probability_tier probability,
          key_engagement_signals = engagement_signals,
          recommended_actions = recommendations,
          conv_model_version = MODEL_VERSION,
          conv_timestamp = now @ ''Z''\<rparr>)"

section \<open>server.py: the tool \<open>get_conversion_insights\<close>\<close>

text \<open>\<open>data_store.get_account\<close> over the list \<open>ACCOUNTS\<close>: the first account with the id.\<close>

fun get_account :: "account list \<Rightarrow> string \<Rightarrow> account option" where
  "get_account [] account_id = None"
| "get_account (a # as) account_id =
     (if acc_id a = account_id then Some a else get_account as account_id)"

text \<open>
  What \<open>call_tool\<close> returns, as the JSON text it serialises: the error object of the plan
  check, the error object that the handler of \<open>except Exception\<close> builds from a raised
  exception (with the tool's name), or the result of the engine.
\<close>

datatype tool_response =
    ErrorObject string
  | ExceptionObject string string
  | ConversionObject conversion_result

text \<open>
  The branch of \<open>call_tool\<close> for the tool name \<open>get_conversion_insights\<close>. The second
  component is the prediction handed to \<open>store_prediction_log\<close>, \<open>None\<close> when the branch
  logs nothing.
\<close>

definition call_tool_get_conversion_insights ::
    "account list \<Rightarrow> string \<Rightarrow> string \<Rightarrow> tool_response \<times> conversion_result option" where
  "call_tool_get_conversion_insights accounts now account_id =
     (case get_account accounts account_id of
        None \<Rightarrow>
          (ExceptionObject (''Account not found: '' @ account_id) ''get_conversion_insights'', None)
      | Some account \<Rightarrow>
          if plan account \<noteq> ''trial''
          then (ErrorObject (''Account '' @ account_id @ '' is not a trial account (plan: '' @
                             plan account @ '')''), None)
          else let result = calculate_conversion_probability now account
               in (ConversionObject result, Some result))"

section \<open>Properties of the float model\<close>

subsection \<open>The exponent\<close>

lemma nat_pow2_bounds:
  assumes "0 < (n::int)"
  shows "(2::rat) powi (int (floorlog 2 (nat n)) - 1) \<le> of_int n"
    and "(of_int n :: rat) < 2 powi (int (floorlog 2 (nat n)))"
proof -
  let ?a = "floorlog 2 (nat n)"
  have pos: "0 < nat n" using assms by simp
  from floorlog_bounds[OF pos, of 2]
  have lo: "2 ^ (?a - 1) \<le> nat n" and hi: "nat n < 2 ^ ?a" by simp_all
  have a1: "1 \<le> ?a" using pos by (simp add: floorlog_def)
  have "(2::rat) powi (int ?a - 1) = 2 ^ (?a - 1)"
    using a1 by (simp add: power_int_def nat_diff_distrib')
  also have "\<dots> = of_nat (2 ^ (?a - 1))" by simp
  also have "\<dots> \<le> of_nat (nat n)" using lo by (simp only: of_nat_le_iff)
  also have "\<dots> = of_int n" using assms by simp
  finally show "(2::rat) powi (int ?a - 1) \<le> of_int n" .
  have "(of_int n :: rat) = of_nat (nat n)" using assms by simp
  also have "\<dots> < of_nat (2 ^ ?a)" using hi by (simp only: of_nat_less_iff)
  also have "\<dots> = 2 powi (int ?a)" by simp
  finally show "(of_int n :: rat) < 2 powi (int ?a)" .
qed

lemma pow2_add: "(2::rat) powi a * 2 powi b = 2 powi (a + b)"
  by (simp add: power_int_add)

lemma pow2_bracket:
  assumes p: "0 < p" and q: "0 < q"
  defines "k \<equiv> int (floorlog 2 (nat p)) - int (floorlog 2 (nat q))"
  shows "(2::rat) powi (k - 1) < of_int p / of_int q"
    and "(of_int p :: rat) / of_int q < 2 powi (k + 1)"
proof -
  define a where "a = int (floorlog 2 (nat p))"
  define b where "b = int (floorlog 2 (nat q))"
  have k: "k = a - b" by (simp add: k_def a_def b_def)
  have pa: "(2::rat) powi (a - 1) \<le> of_int p" "(of_int p :: rat) < 2 powi a"
    unfolding a_def by (rule nat_pow2_bounds[OF p])+
  have qb: "(2::rat) powi (b - 1) \<le> of_int q" "(of_int q :: rat) < 2 powi b"
    unfolding b_def by (rule nat_pow2_bounds[OF q])+
  have qr: "(0::rat) < of_int q" using q by simp
  have "(2::rat) powi (k - 1) * of_int q < 2 powi (k - 1) * 2 powi b"
    using qb(2) by simp
  also have "\<dots> = 2 powi (a - 1)" by (simp add: pow2_add k)
  also have "\<dots> \<le> of_int p" using pa(1) .
  finally show "(2::rat) powi (k - 1) < of_int p / of_int q"
    using qr by (simp add: pos_less_divide_eq)
  have "(of_int p :: rat) < 2 powi a" using pa(2) .
  also have "\<dots> = 2 powi (k + 1) * 2 powi (b - 1)" by (simp add: pow2_add k)
  also have "\<dots> \<le> 2 powi (k + 1) * of_int q"
    using qb(1) by simp
  finally show "(of_int p :: rat) / of_int q < 2 powi (k + 1)"
    using qr by (simp add: pos_divide_less_eq)
qed

lemma ilog2_bounds:
  assumes "0 < x"
  shows "2 powi (ilog2 x) \<le> x \<and> x < 2 powi (ilog2 x + 1)"
proof -
  obtain p q where pq: "quotient_of x = (p, q)" by (cases "quotient_of x")
  have q: "0 < q" using pq by (rule quotient_of_denom_pos)
  have x: "x = of_int p / of_int q" using pq by (rule quotient_of_div)
  have p: "0 < p" using assms q x by (simp add: zero_less_divide_iff)
  define k where "k = int (floorlog 2 (nat p)) - int (floorlog 2 (nat q))"
  have lo: "(2::rat) powi (k - 1) < x" and hi: "x < (2::rat) powi (k + 1)"
    unfolding x k_def by (rule pow2_bracket[OF p q])+
  have il: "ilog2 x = (if 2 powi k \<le> x then k else k - 1)"
    by (simp add: ilog2_def pq k_def)
  show ?thesis
  proof (cases "2 powi k \<le> x")
    case True
    with il hi show ?thesis by simp
  next
    case False
    with il lo show ?thesis by simp
  qed
qed

lemma pow2_less_imp_less:
  assumes "(2::rat) powi a < 2 powi b"
  shows "a < b"
proof (rule ccontr)
  assume "\<not> a < b"
  then have "b \<le> a" by simp
  then have "(2::rat) powi b \<le> 2 powi a" by (rule power_int_increasing) simp
  with assms show False by simp
qed

lemma ilog2_unique:
  assumes "2 powi k \<le> x" "x < 2 powi (k + 1)"
  shows "ilog2 x = k"
proof -
  have "(0::rat) < 2 powi k" by simp
  with assms have pos: "0 < x" by linarith
  from ilog2_bounds[OF pos] have b: "2 powi (ilog2 x) \<le> x" "x < 2 powi (ilog2 x + 1)" by simp_all
  have "(2::rat) powi k < 2 powi (ilog2 x + 1)" using assms(1) b(2) by linarith
  then have 1: "k < ilog2 x + 1" by (rule pow2_less_imp_less)
  have "(2::rat) powi (ilog2 x) < 2 powi (k + 1)" using assms(2) b(1) by linarith
  then have 2: "ilog2 x < k + 1" by (rule pow2_less_imp_less)
  from 1 2 show ?thesis by simp
qed

subsection \<open>Rounding\<close>

lemma round_half_even_ge_floor: "\<lfloor>y\<rfloor> \<le> round_half_even y"
  by (simp add: round_half_even_def Let_def)

lemma round_half_even_of_int [simp]: "round_half_even (of_int n) = n"
  by (simp add: round_half_even_def Let_def)

lemma round_half_even_le:
  assumes "y \<le> of_int N"
  shows "round_half_even y \<le> N"
proof (cases "y = of_int N")
  case True
  then show ?thesis by simp
next
  case False
  with assms have "y < of_int N" by simp
  then have "\<lfloor>y\<rfloor> < N" by (simp add: floor_less_iff)
  moreover have "round_half_even y \<le> \<lfloor>y\<rfloor> + 1"
    by (simp add: round_half_even_def Let_def)
  ultimately show ?thesis by linarith
qed

lemma round_half_even_ge:
  assumes "of_int N \<le> y"
  shows "N \<le> round_half_even y"
proof -
  have "N \<le> \<lfloor>y\<rfloor>" using assms by (simp add: le_floor_iff)
  with round_half_even_ge_floor[of y] show ?thesis by linarith
qed

lemma binary64_nonneg:
  assumes "0 \<le> x"
  shows "0 \<le> binary64 x"
proof (cases "x = 0")
  case True
  then show ?thesis by (simp add: binary64_def)
next
  case False
  define e where "e = max (ilog2 \<bar>x\<bar> - 52) (- 1074)"
  have "(0::rat) \<le> x / 2 powi e" using assms by simp
  then have "0 \<le> round_half_even (x / 2 powi e)"
    using round_half_even_ge[of 0 "x / 2 powi e"] by simp
  then show ?thesis using False by (simp add: binary64_def Let_def e_def)
qed

lemma binary64_le_grid:
  assumes xc: "x \<le> of_int n * 2 powi k" and n0: "0 \<le> n" and n: "n < 2 ^ 53" and k: "- 1074 \<le> k"
  shows "binary64 x \<le> of_int n * 2 powi k"
proof (cases "0 < x")
  case False
  define e where "e = max (ilog2 \<bar>x\<bar> - 52) (- 1074)"
  have "x / 2 powi e \<le> of_int 0" using False by (simp add: divide_le_0_iff)
  then have "round_half_even (x / 2 powi e) \<le> 0" by (rule round_half_even_le)
  then have "of_int (round_half_even (x / 2 powi e)) * (2::rat) powi e \<le> 0"
    by (simp add: mult_le_0_iff)
  then have "binary64 x \<le> 0" by (simp add: binary64_def Let_def e_def)
  moreover have "(0::rat) \<le> of_int n * 2 powi k" using n0 by simp
  ultimately show ?thesis by linarith
next
  case True
  define e where "e = max (ilog2 x - 52) (- 1074)"
  have b64: "binary64 x = of_int (round_half_even (x / 2 powi e)) * 2 powi e"
    using True by (simp add: binary64_def Let_def e_def)
  have "(of_int n :: rat) < 2 ^ 53" using n by (metis of_int_less_iff of_int_numeral of_int_power)
  then have "(of_int n :: rat) * 2 powi k < 2 powi 53 * 2 powi k" by simp
  also have "\<dots> = 2 powi (53 + k)" by (rule pow2_add)
  finally have "x < 2 powi (53 + k)" using xc by linarith
  moreover have "2 powi (ilog2 x) \<le> x" using ilog2_bounds[OF True] by simp
  ultimately have "(2::rat) powi (ilog2 x) < 2 powi (53 + k)" by linarith
  then have "ilog2 x < 53 + k" by (rule pow2_less_imp_less)
  then have ek: "e \<le> k" using k by (simp add: e_def)
  define d where "d = nat (k - e)"
  have k_eq: "k = e + int d" using ek by (simp add: d_def)
  have c_eq: "(of_int n :: rat) * 2 powi k = of_int (n * 2 ^ d) * 2 powi e"
    by (simp add: k_eq power_int_add)
  have "x / 2 powi e \<le> of_int (n * 2 ^ d)"
    using xc by (simp add: c_eq pos_divide_le_eq)
  then have "round_half_even (x / 2 powi e) \<le> n * 2 ^ d" by (rule round_half_even_le)
  then have "(of_int (round_half_even (x / 2 powi e)) :: rat) \<le> of_int (n * 2 ^ d)"
    by (simp only: of_int_le_iff)
  then have "of_int (round_half_even (x / 2 powi e)) * (2::rat) powi e \<le> of_int (n * 2 ^ d) * 2 powi e"
    by (intro mult_right_mono) simp_all
  then show ?thesis by (simp only: b64 c_eq)
qed

lemma binary64_ge_grid:
  assumes cx: "of_int n * 2 powi k \<le> x" and n0: "0 \<le> n" and n: "n < 2 ^ 53" and k: "- 1074 \<le> k"
  shows "of_int n * 2 powi k \<le> binary64 x"
proof (cases "0 < x")
  case False
  then have "x \<le> 0" by simp
  moreover have "(0::rat) \<le> of_int n * 2 powi k" using n0 by simp
  ultimately have "x = 0" "of_int n * 2 powi k = (0::rat)" using cx by linarith+
  then show ?thesis by (simp add: binary64_def)
next
  case True
  define e where "e = max (ilog2 x - 52) (- 1074)"
  have b64: "binary64 x = of_int (round_half_even (x / 2 powi e)) * 2 powi e"
    using True by (simp add: binary64_def Let_def e_def)
  show ?thesis
  proof (cases "e \<le> k")
    case True
    define d where "d = nat (k - e)"
    have k_eq: "k = e + int d" using True by (simp add: d_def)
    have c_eq: "(of_int n :: rat) * 2 powi k = of_int (n * 2 ^ d) * 2 powi e"
      by (simp add: k_eq power_int_add)
    have "of_int (n * 2 ^ d) \<le> x / 2 powi e"
      using cx by (simp add: c_eq pos_le_divide_eq)
    then have "n * 2 ^ d \<le> round_half_even (x / 2 powi e)" by (rule round_half_even_ge)
    then have "(of_int (n * 2 ^ d) :: rat) \<le> of_int (round_half_even (x / 2 powi e))"
      by (simp only: of_int_le_iff)
    then have "of_int (n * 2 ^ d) * 2 powi e \<le> of_int (round_half_even (x / 2 powi e)) * (2::rat) powi e"
      by (intro mult_right_mono) simp_all
    then show ?thesis by (simp only: b64 c_eq)
  next
    case False
    then have ke: "k < e" by simp
    with k have "e = ilog2 x - 52" by (simp add: e_def)
    then have il: "ilog2 x = e + 52" by simp
    have "2 powi (e + 52) \<le> x" using ilog2_bounds[OF \<open>0 < x\<close>] by (simp add: il)
    then have "of_int (2 ^ 52) \<le> x / 2 powi e"
      by (simp add: power_int_add pos_le_divide_eq mult.commute)
    then have "2 ^ 52 \<le> round_half_even (x / 2 powi e)" by (rule round_half_even_ge)
    then have "(of_int (2 ^ 52) :: rat) \<le> of_int (round_half_even (x / 2 powi e))"
      by (simp only: of_int_le_iff)
    then have "of_int (2 ^ 52) * 2 powi e \<le> of_int (round_half_even (x / 2 powi e)) * (2::rat) powi e"
      by (intro mult_right_mono) simp_all
    then have lo: "2 powi (52 + e) \<le> binary64 x" by (simp add: b64 power_int_add)
    have "(of_int n :: rat) < 2 ^ 53" using n by (metis of_int_less_iff of_int_numeral of_int_power)
    then have "(of_int n :: rat) * 2 powi k < 2 powi 53 * 2 powi k" by simp
    also have "\<dots> = 2 powi (53 + k)" by (rule pow2_add)
    also have "\<dots> \<le> 2 powi (52 + e)" using ke by (intro power_int_increasing) simp_all
    finally show ?thesis using lo by linarith
  qed
qed

lemma binary64_grid_exact:
  assumes "0 \<le> n" "n < 2 ^ 53" "- 1074 \<le> k"
  shows "binary64 (of_int n * 2 powi k) = of_int n * 2 powi k"
  using binary64_le_grid[OF order_refl assms] binary64_ge_grid[OF order_refl assms]
  by (rule antisym)

lemma binary64_le_dyadic:
  assumes "x \<le> of_int n / 2 ^ j" "0 \<le> n" "n < 2 ^ 53" "j \<le> 1074"
  shows "binary64 x \<le> of_int n / 2 ^ j"
  using binary64_le_grid[of x n "- int j"] assms
  by (simp add: power_int_minus field_simps)

lemma binary64_le_int:
  assumes "x \<le> of_int n" "0 \<le> n" "n < 2 ^ 53"
  shows "binary64 x \<le> of_int n"
  using binary64_le_grid[of x n 0] assms by simp

lemma binary64_ge_int:
  assumes "of_int n \<le> x" "0 \<le> n" "n < 2 ^ 53"
  shows "of_int n \<le> binary64 x"
  using binary64_ge_grid[of n 0 x] assms by simp

lemma binary64_of_int_exact:
  assumes "0 \<le> n" "n < 2 ^ 53"
  shows "binary64 (of_int n) = of_int n"
  using binary64_grid_exact[of n 0] assms by simp

lemma binary64_at_exponent:
  assumes lo: "2 powi (e + 52) \<le> x" and hi: "x < 2 powi (e + 53)" and e: "- 1074 \<le> e"
  shows "binary64 x = of_int (round_half_even (x / 2 powi e)) * 2 powi e"
proof -
  have "(0::rat) < 2 powi (e + 52)" by simp
  with lo have pos: "0 < x" by linarith
  have "ilog2 x = e + 52" using lo hi by (intro ilog2_unique) (simp_all add: add.commute add.left_commute)
  then have "max (ilog2 \<bar>x\<bar> - 52) (- 1074) = e" using pos e by simp
  then show ?thesis using pos by (simp add: binary64_def Let_def)
qed

lemma round_half_even_fraction:
  assumes "0 < q"
  shows "round_half_even (of_int p / of_int q) =
     (if 2 * (p mod q) < q then p div q
      else if q < 2 * (p mod q) then p div q + 1
      else if even (p div q) then p div q else p div q + 1)"
proof -
  have f: "\<lfloor>(of_int p :: rat) / of_int q\<rfloor> = p div q" by (rule floor_divide_of_int_eq)
  have qr: "(0::rat) < of_int q" using assms by simp
  have "(of_int p :: rat) = of_int (p div q * q + p mod q)" by simp
  also have "\<dots> = of_int (p div q) * of_int q + of_int (p mod q)" by (simp only: of_int_add of_int_mult)
  finally have d: "(of_int p :: rat) / of_int q - of_int (p div q) = of_int (p mod q) / of_int q"
    using qr by (simp add: field_simps)
  have lt: "(of_int (p mod q) / of_int q < (1/2 :: rat)) = (2 * (p mod q) < q)"
  proof -
    have "(of_int (p mod q) / of_int q < (1/2 :: rat)) = ((of_int (2 * (p mod q)) :: rat) < of_int q)"
      using qr by (simp add: field_simps)
    then show ?thesis by (simp only: of_int_less_iff)
  qed
  have gt: "((1/2 :: rat) < of_int (p mod q) / of_int q) = (q < 2 * (p mod q))"
  proof -
    have "((1/2 :: rat) < of_int (p mod q) / of_int q) = ((of_int q :: rat) < of_int (2 * (p mod q)))"
      using qr by (simp add: field_simps)
    then show ?thesis by (simp only: of_int_less_iff)
  qed
  show ?thesis
    by (simp only: round_half_even_def Let_def f d lt gt)
qed

lemma round_half_even_numeral_fraction:
  "round_half_even (numeral a / numeral b) =
     (if 2 * (numeral a mod numeral b) < (numeral b :: int) then numeral a div numeral b
      else if (numeral b :: int) < 2 * (numeral a mod numeral b) then numeral a div numeral b + 1
      else if even (numeral a div numeral b :: int) then numeral a div numeral b
      else numeral a div numeral b + 1)"
  using round_half_even_fraction[of "numeral b" "numeral a"] by simp

lemma round_half_even_numeral [simp]: "round_half_even (numeral a) = numeral a"
  using round_half_even_of_int[of "numeral a"] by simp

subsection \<open>Evaluation on numerals\<close>

lemma ilog2_fraction:
  assumes p: "0 < p" and q: "0 < q"
  shows "ilog2 (of_int p / of_int q) =
     (let k = int (floorlog 2 (nat p)) - int (floorlog 2 (nat q))
      in if 2 powi k \<le> (of_int p / of_int q :: rat) then k else k - 1)"
proof -
  define k where "k = int (floorlog 2 (nat p)) - int (floorlog 2 (nat q))"
  have lo: "(2::rat) powi (k - 1) < of_int p / of_int q"
    and hi: "(of_int p :: rat) / of_int q < 2 powi (k + 1)"
    unfolding k_def by (rule pow2_bracket[OF p q])+
  have "ilog2 (of_int p / of_int q) = (if 2 powi k \<le> (of_int p / of_int q :: rat) then k else k - 1)"
  proof (cases "2 powi k \<le> (of_int p / of_int q :: rat)")
    case True
    then show ?thesis using hi by (simp add: ilog2_unique)
  next
    case False
    then have "(of_int p :: rat) / of_int q < 2 powi (k - 1 + 1)" by simp
    moreover have "(2::rat) powi (k - 1) \<le> of_int p / of_int q" using lo by simp
    ultimately have "ilog2 (of_int p / of_int q) = k - 1" by (rule ilog2_unique[rotated])
    with False show ?thesis by simp
  qed
  then show ?thesis by (simp add: k_def Let_def)
qed

lemma ilog2_numeral_fraction:
  "ilog2 (numeral a / numeral b) =
     (let k = int (floorlog 2 (numeral a)) - int (floorlog 2 (numeral b))
      in if 2 powi k \<le> (numeral a / numeral b :: rat) then k else k - 1)"
  using ilog2_fraction[of "numeral a" "numeral b"] by simp

lemma floorlog_2_1: "floorlog 2 (Suc 0) = 1"
  by (simp add: floorlog_def)

lemma ilog2_numeral:
  "ilog2 (numeral a) = int (floorlog 2 (numeral a)) - 1"
proof -
  have b: "(2::rat) powi (int (floorlog 2 (numeral a)) - 1) \<le> numeral a"
    using nat_pow2_bounds(1)[of "numeral a"] by simp
  have "ilog2 (of_int (numeral a) / of_int 1) =
     (let k = int (floorlog 2 (nat (numeral a))) - int (floorlog 2 (nat 1))
      in if 2 powi k \<le> (of_int (numeral a) / of_int 1 :: rat) then k else k - 1)"
    by (rule ilog2_fraction) simp_all
  then show ?thesis using b by (simp add: floorlog_2_1 Let_def)
qed

lemma ilog2_one_over_numeral:
  "ilog2 (1 / numeral b) =
     (let k = 1 - int (floorlog 2 (numeral b))
      in if 2 powi k \<le> (1 / numeral b :: rat) then k else k - 1)"
proof -
  have "ilog2 (of_int 1 / of_int (numeral b)) =
     (let k = int (floorlog 2 (nat 1)) - int (floorlog 2 (nat (numeral b)))
      in if 2 powi k \<le> (of_int 1 / of_int (numeral b) :: rat) then k else k - 1)"
    by (rule ilog2_fraction) simp_all
  then show ?thesis by (simp add: floorlog_2_1 Let_def)
qed

lemma round_half_even_one_over_numeral:
  "round_half_even (1 / numeral b) =
     (if 2 * (1 mod numeral b) < (numeral b :: int) then 1 div numeral b
      else if (numeral b :: int) < 2 * (1 mod numeral b) then 1 div numeral b + 1
      else if even (1 div numeral b :: int) then 1 div numeral b
      else 1 div numeral b + 1)"
  using round_half_even_fraction[of "numeral b" 1] by simp

lemma round_half_even_0 [simp]: "round_half_even 0 = 0"
  using round_half_even_of_int[of 0] by simp

lemma round_half_even_1 [simp]: "round_half_even 1 = 1"
  using round_half_even_of_int[of 1] by simp

lemma binary64_0 [simp]: "binary64 0 = 0"
  by (simp add: binary64_def)

lemma ilog2_1 [simp]: "ilog2 1 = 0"
  by (rule ilog2_unique) simp_all

lemma binary64_1 [simp]: "binary64 1 = 1"
  by (simp add: binary64_def)

lemma binary64_numeral_fraction:
  "binary64 (numeral a / numeral b) =
     (let e = max (ilog2 (numeral a / numeral b) - 52) (- 1074)
      in of_int (round_half_even (numeral a / numeral b / 2 powi e)) * 2 powi e)"
  by (simp add: binary64_def Let_def)

lemma binary64_numeral:
  "binary64 (numeral a) =
     (let e = max (ilog2 (numeral a) - 52) (- 1074)
      in of_int (round_half_even (numeral a / 2 powi e)) * 2 powi e)"
  by (simp add: binary64_def Let_def)

lemma binary64_one_over_numeral:
  "binary64 (1 / numeral b) =
     (let e = max (ilog2 (1 / numeral b) - 52) (- 1074)
      in of_int (round_half_even (1 / numeral b / 2 powi e)) * 2 powi e)"
  by (simp add: binary64_def Let_def)

lemmas float_eval =
  binary64_numeral_fraction binary64_numeral binary64_one_over_numeral
  float_lit_def fadd_def fmul_def py_round_def Let_def
  ilog2_numeral_fraction ilog2_numeral ilog2_one_over_numeral compute_floorlog
  round_half_even_numeral_fraction round_half_even_one_over_numeral

section \<open>Lead scoring\<close>

declare show_nat.simps [simp del]

lemmas model_eval =
  calculate_engagement_score_def calculate_intent_score_def score_lead_def
  final_score_of_def lead_tier_def int_truediv_def get_company_size_score_def
  industry_fit_score_def INDUSTRY_FIT_SCORES_def
  LEAD_SCORE_WEIGHTS_company_size_def LEAD_SCORE_WEIGHTS_engagement_signals_def
  LEAD_SCORE_WEIGHTS_industry_fit_def LEAD_SCORE_WEIGHTS_intent_signals_def
  LEAD_TIER_THRESHOLDS_hot_def LEAD_TIER_THRESHOLDS_warm_def

lemma engagement_attributions:
  assumes "calculate_engagement_score s = Inr (e, attrs)"
  shows "attrs =
     [\<lparr>feature_name = ''website_visits_30d'', contribution = 25,
       signal_value = IntV (case website_visits_30d s of None \<Rightarrow> 0 | Some v \<Rightarrow> v),
       impact = (if (case website_visits_30d s of None \<Rightarrow> 0 | Some v \<Rightarrow> v) > 20
                 then ''positive'' else ''neutral'')\<rparr>,
      \<lparr>feature_name = ''email_engagement_score'', contribution = 30,
       signal_value = (case email_engagement_score s of None \<Rightarrow> IntV 0 | Some v \<Rightarrow> FloatV v),
       impact = (if (case email_engagement_score s of None \<Rightarrow> 0 | Some v \<Rightarrow> v) > 60
                 then ''positive'' else ''neutral'')\<rparr>,
      \<lparr>feature_name = ''demo_requested'', contribution = 20,
       signal_value = BoolV (case demo_requested s of None \<Rightarrow> False | Some b \<Rightarrow> b),
       impact = (if (case demo_requested s of None \<Rightarrow> False | Some b \<Rightarrow> b)
                 then ''positive'' else ''negative'')\<rparr>,
      \<lparr>feature_name = ''free_trial_started'', contribution = 15,
       signal_value = BoolV (case free_trial_started s of None \<Rightarrow> False | Some b \<Rightarrow> b),
       impact = (if (case free_trial_started s of None \<Rightarrow> False | Some b \<Rightarrow> b)
                 then ''positive'' else ''neutral'')\<rparr>,
      \<lparr>feature_name = ''whitepaper_downloads'', contribution = 10,
       signal_value = IntV (case whitepaper_downloads s of None \<Rightarrow> 0 | Some v \<Rightarrow> v),
       impact = (if (case whitepaper_downloads s of None \<Rightarrow> 0 | Some v \<Rightarrow> v) > 2
                 then ''positive'' else ''neutral'')\<rparr>]"
  using assms
  by (auto simp: calculate_engagement_score_def Let_def split: sum.splits)

lemma scaled_contributions:
  "fmul LEAD_SCORE_WEIGHTS_company_size 100 = 20"
  "fmul 25 LEAD_SCORE_WEIGHTS_engagement_signals = 10"
  "fmul 30 LEAD_SCORE_WEIGHTS_engagement_signals = 12"
  "fmul 20 LEAD_SCORE_WEIGHTS_engagement_signals = 8"
  "fmul 15 LEAD_SCORE_WEIGHTS_engagement_signals = 6"
  "fmul 10 LEAD_SCORE_WEIGHTS_engagement_signals = 4"
  "fmul LEAD_SCORE_WEIGHTS_industry_fit 100 = 20"
  "fmul 100 LEAD_SCORE_WEIGHTS_intent_signals = 20"
  by (simp_all add: LEAD_SCORE_WEIGHTS_company_size_def LEAD_SCORE_WEIGHTS_engagement_signals_def
      LEAD_SCORE_WEIGHTS_industry_fit_def LEAD_SCORE_WEIGHTS_intent_signals_def float_eval)

lemma score_lead_Inr:
  assumes "score_lead now company_name s industry employee_count = Inr r"
  obtains e attrs where "calculate_engagement_score s = Inr (e, attrs)"
    and "feature_attributions r =
          [\<lparr>feature_name = ''company_size'',
            contribution = fmul LEAD_SCORE_WEIGHTS_company_size 100,
            signal_value = IntV employee_count,
            impact = (if get_company_size_score employee_count > 70 then ''positive'' else ''neutral'')\<rparr>] @
          map (\<lambda>a. a\<lparr>contribution := fmul (contribution a) LEAD_SCORE_WEIGHTS_engagement_signals\<rparr>) attrs @
          [\<lparr>feature_name = ''industry_fit'',
            contribution = fmul LEAD_SCORE_WEIGHTS_industry_fit 100,
            signal_value = StrV industry,
            impact = (if industry_fit_score industry > 70 then ''positive'' else ''neutral'')\<rparr>] @
          map (\<lambda>a. a\<lparr>contribution := fmul (contribution a) LEAD_SCORE_WEIGHTS_intent_signals\<rparr>)
              (snd (calculate_intent_score s))"
    and "score r = py_round (final_score_of (get_company_size_score employee_count) e
                    (industry_fit_score industry) (fst (calculate_intent_score s))) 2"
    and "tier r = lead_tier (final_score_of (get_company_size_score employee_count) e
                    (industry_fit_score industry) (fst (calculate_intent_score s)))"
  using assms
  by (auto simp: score_lead_def Let_def split: sum.splits prod.splits)

lemma int_truediv_in_range:
  assumes "0 \<le> a" "0 < b" "a \<le> b * 2 ^ 1023"
  shows "\<exists>r. int_truediv a b = Inr r \<and> 0 \<le> r"
proof -
  let ?x = "(of_int a :: rat) / of_int b"
  have b: "(0::rat) < of_int b" using assms(2) by simp
  have "(of_int a :: rat) \<le> of_int (b * 2 ^ 1023)" using assms(3) by (simp only: of_int_le_iff)
  then have "?x \<le> 2 ^ 1023" using b by (simp add: pos_divide_le_eq mult.commute)
  then have "?x \<le> of_int 1 * 2 powi 1023" by simp
  then have "binary64 ?x \<le> of_int 1 * 2 powi 1023" by (rule binary64_le_grid) simp_all
  then have hi: "binary64 ?x \<le> 2 ^ 1023" by simp
  have "0 \<le> ?x" using assms(1) b by simp
  then have lo: "0 \<le> binary64 ?x" by (rule binary64_nonneg)
  have "(2::rat) ^ 1023 < 2 ^ 1024" by simp
  with hi lo have "\<not> 2 ^ 1024 \<le> \<bar>binary64 ?x\<bar>" by linarith
  then show ?thesis using assms(2) lo by (simp add: int_truediv_def Let_def)
qed

lemma calculate_engagement_score_total:
  assumes "\<forall>v. website_visits_30d s = Some v \<longrightarrow> 0 \<le> v \<and> v \<le> 50 * 2 ^ 1023"
      and "\<forall>v. whitepaper_downloads s = Some v \<longrightarrow> 0 \<le> v \<and> v \<le> 5 * 2 ^ 1023"
  shows "\<exists>e attrs. calculate_engagement_score s = Inr (e, attrs)"
proof -
  define v where "v = (case website_visits_30d s of None \<Rightarrow> 0 | Some v \<Rightarrow> v)"
  define d where "d = (case whitepaper_downloads s of None \<Rightarrow> 0 | Some v \<Rightarrow> v)"
  have "0 \<le> v \<and> v \<le> 50 * 2 ^ 1023" using assms(1) by (auto simp: v_def split: option.splits)
  then obtain q1 where q1: "int_truediv v 50 = Inr q1"
    using int_truediv_in_range[of v 50] by auto
  have "0 \<le> d \<and> d \<le> 5 * 2 ^ 1023" using assms(2) by (auto simp: d_def split: option.splits)
  then obtain q2 where q2: "int_truediv d 5 = Inr q2"
    using int_truediv_in_range[of d 5] by auto
  show ?thesis
    unfolding calculate_engagement_score_def v_def[symmetric]
    by (simp add: q1 Let_def d_def[symmetric] q2)
qed

lemma score_lead_total:
  assumes "\<forall>v. website_visits_30d s = Some v \<longrightarrow> 0 \<le> v \<and> v \<le> 50 * 2 ^ 1023"
      and "\<forall>v. whitepaper_downloads s = Some v \<longrightarrow> 0 \<le> v \<and> v \<le> 5 * 2 ^ 1023"
  shows "\<exists>r. score_lead now company_name s industry employee_count = Inr r"
proof -
  from calculate_engagement_score_total[OF assms]
  obtain e attrs where "calculate_engagement_score s = Inr (e, attrs)" by blast
  then show ?thesis by (simp add: score_lead_def Let_def split: prod.splits)
qed

text \<open>
  Claim C1. For the signals \<open>website_visits_30d = 60\<close>, \<open>demo_requested = True\<close>,
  \<open>whitepaper_downloads = 5\<close>, \<open>email_engagement_score = 90\<close>,
  \<open>linkedin_engagement = True\<close>, \<open>free_trial_started = True\<close>, the industry
  \<open>technology\<close> and 1000 employees, the engagement sub-score is 97.0, the company-size
  sub-score 100, the industry sub-score 90 and the intent sub-score 100; \<open>score_lead\<close>
  returns the score 96.8 (the float that the literal \<open>96.8\<close> denotes) and the tier
  \<open>hot\<close>.
\<close>

theorem score_lead_hot_example:
  fixes now company_name :: string
  defines "s \<equiv> \<lparr>website_visits_30d = Some 60, email_engagement_score = Some 90,
                   demo_requested = Some True, free_trial_started = Some True,
                   whitepaper_downloads = Some 5, linkedin_engagement = Some True\<rparr>"
  shows "map_sum id fst (calculate_engagement_score s) = Inr 97
    \<and> get_company_size_score 1000 = 100
    \<and> industry_fit_score ''technology'' = 90
    \<and> fst (calculate_intent_score s) = 100
    \<and> map_sum id score (score_lead now company_name s ''technology'' 1000) = Inr (float_lit (968 / 10))
    \<and> map_sum id tier (score_lead now company_name s ''technology'' 1000) = Inr ''hot''"
proof -
  have e: "calculate_engagement_score s = Inr (97, snd (projr (calculate_engagement_score s)))"
    unfolding s_def by (simp add: model_eval float_eval)
  have i: "calculate_intent_score s = (100, snd (calculate_intent_score s))"
    unfolding s_def by (simp add: model_eval)
  have c: "get_company_size_score 1000 = 100" by (simp add: get_company_size_score_def)
  have t: "industry_fit_score ''technology'' = 90"
    by (simp add: industry_fit_score_def INDUSTRY_FIT_SCORES_def)
  have f: "final_score_of 100 97 90 100 = 1702923609099469 / 17592186044416"
    by (simp add: final_score_of_def LEAD_SCORE_WEIGHTS_company_size_def
        LEAD_SCORE_WEIGHTS_engagement_signals_def LEAD_SCORE_WEIGHTS_industry_fit_def
        LEAD_SCORE_WEIGHTS_intent_signals_def float_eval)
  have r: "py_round (1702923609099469 / 17592186044416) 2 = float_lit (968 / 10)"
    by (simp add: float_eval)
  have h: "lead_tier (1702923609099469 / 17592186044416) = ''hot''"
    by (simp add: lead_tier_def LEAD_TIER_THRESHOLDS_hot_def)
  have sc: "map_sum id score (score_lead now company_name s ''technology'' 1000) = Inr (float_lit (968 / 10))"
    unfolding score_lead_def c t by (subst e, subst i) (simp add: Let_def f r)
  have ti: "map_sum id tier (score_lead now company_name s ''technology'' 1000) = Inr ''hot''"
    unfolding score_lead_def c t by (subst e, subst i) (simp add: Let_def f h)
  have e': "map_sum id fst (calculate_engagement_score s) = Inr 97" by (subst e) simp
  have i': "fst (calculate_intent_score s) = 100" by (subst i) simp
  from e' c t i' sc ti show ?thesis by (intro conjI)
qed

text \<open>
  Claim C10. Whenever \<open>score_lead\<close> returns, its \<open>feature_attributions\<close> are the eight
  entries \<open>company_size\<close>, \<open>website_visits_30d\<close>, \<open>email_engagement_score\<close>,
  \<open>demo_requested\<close>, \<open>free_trial_started\<close>, \<open>whitepaper_downloads\<close>, \<open>industry_fit\<close>,
  \<open>linkedin_engagement\<close>, in this order, with the rescaled contributions
  20, 10, 12, 8, 6, 4, 20, 20, which sum to exactly 100.
\<close>

theorem feature_attributions_fixed:
  assumes "score_lead now company_name s industry employee_count = Inr r"
  shows "map feature_name (feature_attributions r) =
           [''company_size'', ''website_visits_30d'', ''email_engagement_score'',
            ''demo_requested'', ''free_trial_started'', ''whitepaper_downloads'',
            ''industry_fit'', ''linkedin_engagement'']
       \<and> map contribution (feature_attributions r) = [20, 10, 12, 8, 6, 4, 20, 20]
       \<and> sum_list (map contribution (feature_attributions r)) = 100"
proof -
  from assms obtain e attrs where
    en: "calculate_engagement_score s = Inr (e, attrs)" and
    fa: "feature_attributions r =
          [\<lparr>feature_name = ''company_size'',
            contribution = fmul LEAD_SCORE_WEIGHTS_company_size 100,
            signal_value = IntV employee_count,
            impact = (if get_company_size_score employee_count > 70 then ''positive'' else ''neutral'')\<rparr>] @
          map (\<lambda>a. a\<lparr>contribution := fmul (contribution a) LEAD_SCORE_WEIGHTS_engagement_signals\<rparr>) attrs @
          [\<lparr>feature_name = ''industry_fit'',
            contribution = fmul LEAD_SCORE_WEIGHTS_industry_fit 100,
            signal_value = StrV industry,
            impact = (if industry_fit_score industry > 70 then ''positive'' else ''neutral'')\<rparr>] @
          map (\<lambda>a. a\<lparr>contribution := fmul (contribution a) LEAD_SCORE_WEIGHTS_intent_signals\<rparr>)
              (snd (calculate_intent_score s))"
    by (rule score_lead_Inr)
  note at = engagement_attributions[OF en]
  have names: "map feature_name (feature_attributions r) =
           [''company_size'', ''website_visits_30d'', ''email_engagement_score'',
            ''demo_requested'', ''free_trial_started'', ''whitepaper_downloads'',
            ''industry_fit'', ''linkedin_engagement'']"
    unfolding fa by (subst at) (simp add: calculate_intent_score_def Let_def)
  have contribs: "map contribution (feature_attributions r) = [20, 10, 12, 8, 6, 4, 20, 20]"
    unfolding fa by (subst at) (simp add: calculate_intent_score_def Let_def scaled_contributions)
  have "sum_list (map contribution (feature_attributions r)) = 100"
    by (simp add: contribs)
  with names contribs show ?thesis by simp
qed

end
